theory Spec2Isabelle
  imports Main "HOL-Library.Multiset" "HOL-Library.Char_ord" "HOL-Library.List_Lexorder"
begin

section \<open>Python string primitives used by catf.py\<close>

text \<open>
  Python strings are modelled as \<open>string\<close> (lists of characters). The functions below
  are the \<open>str\<close> methods and \<open>os.path\<close> helpers that catf.py calls, with Python's
  behaviour at the edges (no match, negative index, empty pattern) written out.
\<close>

fun startswith :: "string \<Rightarrow> string \<Rightarrow> bool" where
  "startswith s [] = True"
| "startswith [] (p # ps) = False"
| "startswith (c # cs) (p # ps) = (c = p \<and> startswith cs ps)"

text \<open>\<open>s.find(pat)\<close>: the lowest index of an occurrence, \<open>-1\<close> when there is none.\<close>

fun find_from :: "string \<Rightarrow> string \<Rightarrow> nat \<Rightarrow> int" where
  "find_from pat [] i = (if pat = [] then int i else -1)"
| "find_from pat (c # cs) i =
     (if startswith (c # cs) pat then int i else find_from pat cs (Suc i))"

definition py_find :: "string \<Rightarrow> string \<Rightarrow> int" where
  "py_find s pat = find_from pat s 0"

text \<open>\<open>pat in s\<close> on strings.\<close>

definition py_in :: "string \<Rightarrow> string \<Rightarrow> bool" where
  "py_in pat s = (py_find s pat \<noteq> -1)"

text \<open>\<open>s.rfind(pat)\<close>: the highest index of an occurrence, \<open>-1\<close> when there is none.\<close>

fun rfind_from :: "string \<Rightarrow> string \<Rightarrow> nat \<Rightarrow> int" where
  "rfind_from pat [] i = (if pat = [] then int i else -1)"
| "rfind_from pat (c # cs) i =
     (let r = rfind_from pat cs (Suc i)
      in if r \<noteq> -1 then r else if startswith (c # cs) pat then int i else -1)"

definition py_rfind :: "string \<Rightarrow> string \<Rightarrow> int" where
  "py_rfind s pat = rfind_from pat s 0"

text \<open>The slices \<open>s[a:]\<close> and \<open>s[:b]\<close>; a negative bound counts from the end.\<close>

definition slice_from :: "string \<Rightarrow> int \<Rightarrow> string" where
  "slice_from s a = (if a < 0 then drop (nat (int (length s) + a)) s else drop (nat a) s)"

definition slice_to :: "string \<Rightarrow> int \<Rightarrow> string" where
  "slice_to s b = (if b < 0 then take (nat (int (length s) + b)) s else take (nat b) s)"

text \<open>
  \<open>s.replace(old, new)\<close>: every non-overlapping occurrence, scanning from the left. With
  an empty \<open>old\<close> Python inserts \<open>new\<close> before every character and at the end.
\<close>

fun replace_scan :: "string \<Rightarrow> string \<Rightarrow> string \<Rightarrow> string" where
  "replace_scan old new [] = []"
| "replace_scan old new (c # cs) =
     (if startswith (c # cs) old
      then new @ replace_scan old new (drop (length old - 1) cs)
      else c # replace_scan old new cs)"

definition py_replace :: "string \<Rightarrow> string \<Rightarrow> string \<Rightarrow> string" where
  "py_replace s old new =
     (if old = [] then new @ concat (map (\<lambda>c. c # new) s) else replace_scan old new s)"

text \<open>\<open>s.split(" ")\<close>: split at every single separator character; never returns \<open>[]\<close>.\<close>

fun py_split :: "string \<Rightarrow> char \<Rightarrow> string list" where
  "py_split [] sep = [[]]"
| "py_split (c # cs) sep =
     (if c = sep then [] # py_split cs sep
      else (case py_split cs sep of
              w # ws \<Rightarrow> (c # w) # ws
            | [] \<Rightarrow> [[c]]))"

text \<open>\<open>s.lower()\<close> on ASCII letters (the output of \<open>file\<close> is ASCII).\<close>

definition lower_char :: "char \<Rightarrow> char" where
  "lower_char c =
     (if CHR ''A'' \<le> c \<and> c \<le> CHR ''Z'' then char_of (of_char c + (32::nat)) else c)"

definition lower :: "string \<Rightarrow> string" where
  "lower s = map lower_char s"

text \<open>\<open>os.path.basename\<close> (posixpath): everything after the last slash.\<close>

definition get_filename :: "string \<Rightarrow> string" where
  "get_filename path = slice_from path (py_rfind path ''/'' + 1)"

text \<open>
  \<open>os.path.splitext\<close> (posixpath): the extension starts at the last dot after the last
  slash, provided some character of the file name before that dot is not a dot; otherwise
  the extension is empty.
\<close>

definition extension :: "string \<Rightarrow> string" where
  "extension path =
     (let sepIndex = py_rfind path ''/'';
          dotIndex = py_rfind path ''.''
      in if dotIndex > sepIndex
         then (if list_all (\<lambda>c. c = CHR ''.'')
                    (take (nat (dotIndex - (sepIndex + 1))) (drop (nat (sepIndex + 1)) path))
               then []
               else drop (nat dotIndex) path)
         else [])"

section \<open>Exit-status criterion\<close>

text \<open>
  \<open>exit_code\<close> is the value returned by closing the pipe of \<open>os.popen\<close>:
  \<open>None\<close> or an integer.
\<close>

text \<open>
  What closing the pipe returns for a command's return code, on POSIX (every command of
  catf.py is a POSIX shell command): \<open>None\<close> for 0, and otherwise the return code
  shifted left by one byte. A return code is the exit status of the command, or the
  negated signal number when a signal ended it.
\<close>

definition popen_close :: "int \<Rightarrow> int option" where
  "popen_close returncode = (if returncode = 0 then None else Some (returncode * 256))"

definition shell_successfull :: "string \<Rightarrow> int option \<Rightarrow> bool" where
  "shell_successfull cmd exit_code =
     (let prog = (case py_split cmd CHR '' '' of [] \<Rightarrow> [] | w # _ \<Rightarrow> w)
      in case exit_code of
           None \<Rightarrow> True
         | Some code \<Rightarrow>
             (if prog = ''grep'' \<or> prog = ''diff'' then code \<noteq> 2 else code = 0))"

section \<open>Deduplication\<close>

text \<open>
  The file system as far as \<open>filecmp.cmp\<close> sees it: a partial map from paths to the
  contents of regular files. \<open>files_are_equal\<close> is \<open>False\<close> when either file is missing.
\<close>

type_synonym filesystem = "string \<rightharpoonup> string"

type_synonym file_tuple = "string \<times> string \<times> string"

definition files_are_equal :: "filesystem \<Rightarrow> string \<Rightarrow> string \<Rightarrow> bool" where
  "files_are_equal fs file1 file2 =
     (case fs file1 of
        None \<Rightarrow> False
      | Some c1 \<Rightarrow> (case fs file2 of None \<Rightarrow> False | Some c2 \<Rightarrow> c1 = c2))"

fun inside_unique_list :: "filesystem \<Rightarrow> string list \<Rightarrow> string \<Rightarrow> bool" where
  "inside_unique_list fs [] path_to_compare = False"
| "inside_unique_list fs (unique_file # unique_files) path_to_compare =
     (if files_are_equal fs unique_file path_to_compare then True
      else inside_unique_list fs unique_files path_to_compare)"

text \<open>
  The loop of \<open>filter_duplicates\<close> over its three accumulators
  \<open>(unique_files1, unique_files2, unique_files_final)\<close>.
\<close>

fun filter_duplicates_loop ::
  "filesystem \<Rightarrow> file_tuple list \<Rightarrow> string list \<times> string list \<times> file_tuple list
     \<Rightarrow> string list \<times> string list \<times> file_tuple list" where
  "filter_duplicates_loop fs [] acc = acc"
| "filter_duplicates_loop fs (file_tuple # rest) (unique_files1, unique_files2, unique_files_final) =
     (let file1 = fst (snd file_tuple);
          file2 = snd (snd file_tuple)
      in if \<not> inside_unique_list fs unique_files1 file1
            \<and> \<not> inside_unique_list fs unique_files2 file2
         then filter_duplicates_loop fs rest
                (unique_files1 @ [file1], unique_files2 @ [file2], unique_files_final @ [file_tuple])
         else filter_duplicates_loop fs rest (unique_files1, unique_files2, unique_files_final))"

definition filter_duplicates :: "filesystem \<Rightarrow> file_tuple list \<Rightarrow> file_tuple list" where
  "filter_duplicates fs files_to_filter =
     snd (snd (filter_duplicates_loop fs files_to_filter ([], [], [])))"

section \<open>Globals, the outside world and the program state\<close>

text \<open>
  The module constants, and the globals that \<open>compare\<close> sets once from the command
  line before any comparison starts.
\<close>

definition TMP_DIRECTORY :: string where
  "TMP_DIRECTORY = ''/tmp''"

definition ROOT_COMPARISON :: string where
  "ROOT_COMPARISON = TMP_DIRECTORY @ ''/comparison''"

definition DIFF_ARGS :: string where
  "DIFF_ARGS = ''-qraNwB --no-dereference''"

record config =
  ZIP_FILENAME_1 :: string
  ZIP_FILENAME_2 :: string
  GRADLEW_PATH :: string
  argv0 :: string

text \<open>
  Everything outside the interpreter (the file system and the external programs) is a
  state of type \<open>'w\<close> with three observers: \<open>popen\<close> runs a shell command and gives
  its output lines, the value of closing the pipe (\<open>popen_close\<close> of the command's
  return code) and the next world; \<open>isdir\<close> and \<open>isfile\<close> are \<open>os.path.isdir\<close> and
  \<open>os.path.isfile\<close>.
\<close>

record 'w env =
  popen :: "'w \<Rightarrow> string \<Rightarrow> (string list \<times> int option) \<times> 'w"
  isdir :: "'w \<Rightarrow> string \<Rightarrow> bool"
  isfile :: "'w \<Rightarrow> string \<Rightarrow> bool"

text \<open>
  The mutable state of a run: the world, the three global lists, the text written to
  standard error, and \<open>diffs_dict\<close>, the dictionary object that \<open>compare_files\<close> creates
  and that \<open>compare_files_recursive\<close> updates in place (insertion-ordered, as Python
  dictionaries are). Printing to standard output is not modelled.
\<close>

record 'w state =
  world :: 'w
  all_commands :: "string list"
  uncomparable_files :: "string list"
  apk_files :: "string list"
  diffs_dict :: "(string \<times> string list) list"
  stderr :: "string list"

text \<open>
  The exceptions a run can end with. \<open>RecursionError\<close> is what Python raises when
  \<open>compare_files_recursive\<close> nests deeper than the interpreter's recursion limit; the
  last three come from opening, reading and writing files in text mode.
\<close>

datatype error =
    UncomparableFilesException string
  | SystemExit int
  | IndexError
  | RecursionError
  | FileNotFoundError
  | UnicodeDecodeError
  | UnicodeEncodeError

type_synonym ('w, 'a) prog = "'w state \<Rightarrow> (error + 'a) \<times> 'w state"

definition ret :: "'a \<Rightarrow> ('w, 'a) prog" where
  "ret x = (\<lambda>s. (Inr x, s))"

definition raise :: "error \<Rightarrow> ('w, 'a) prog" where
  "raise e = (\<lambda>s. (Inl e, s))"

definition bnd :: "('w, 'a) prog \<Rightarrow> ('a \<Rightarrow> ('w, 'b) prog) \<Rightarrow> ('w, 'b) prog" where
  "bnd m f = (\<lambda>s. case m s of (Inl e, s') \<Rightarrow> (Inl e, s') | (Inr x, s') \<Rightarrow> f x s')"

definition thn :: "('w, 'a) prog \<Rightarrow> ('w, 'b) prog \<Rightarrow> ('w, 'b) prog" where
  "thn m k = bnd m (\<lambda>_. k)"

definition dict_set :: "'k \<Rightarrow> 'v \<Rightarrow> ('k \<times> 'v) list \<Rightarrow> ('k \<times> 'v) list" where
  "dict_set k v d = (if k \<in> fst ` set d then map (\<lambda>(k', v'). if k' = k then (k', v) else (k', v')) d
                     else d @ [(k, v)])"

text \<open>\<open>d.update(other)\<close>.\<close>

fun dict_update :: "('k \<times> 'v) list \<Rightarrow> ('k \<times> 'v) list \<Rightarrow> ('k \<times> 'v) list" where
  "dict_update d [] = d"
| "dict_update d ((k, v) # other) = dict_update (dict_set k v d) other"

text \<open>\<open>xs[i]\<close> for a non-negative constant index.\<close>

definition py_index :: "'a list \<Rightarrow> nat \<Rightarrow> ('w, 'a) prog" where
  "py_index xs i = (if i < length xs then ret (xs ! i) else raise IndexError)"

text \<open>\<open>str(n)\<close> for integers, as the f-strings format them.\<close>

fun str_nat :: "nat \<Rightarrow> string" where
  "str_nat n = (if n < 10 then [char_of (48 + n)] else str_nat (n div 10) @ [char_of (48 + n mod 10)])"

definition str_int :: "int \<Rightarrow> string" where
  "str_int i = (if i < 0 then CHR ''-'' # str_nat (nat (- i)) else str_nat (nat i))"

definition str_exit_code :: "int option \<Rightarrow> string" where
  "str_exit_code c = (case c of None \<Rightarrow> ''None'' | Some i \<Rightarrow> str_int i)"

definition squote :: string where
  "squote = [CHR 0x27]"

definition dquote :: string where
  "dquote = [CHR 0x22]"

definition newline :: string where
  "newline = [CHR 0x0A]"

section \<open>Shell commands\<close>

definition print_error :: "config \<Rightarrow> string \<Rightarrow> ('w, unit) prog" where
  "print_error cfg cause =
     (\<lambda>s. (Inr (), s\<lparr>stderr := stderr s @ [get_filename (argv0 cfg) @ '': error: '' @ cause]\<rparr>))"

definition sys_exit :: "int \<Rightarrow> ('w, 'a) prog" where
  "sys_exit code = raise (SystemExit code)"

definition dir_exists :: "'w env \<Rightarrow> string \<Rightarrow> ('w, bool) prog" where
  "dir_exists E path = (\<lambda>s. (Inr (isdir E (world s) path), s))"

definition file_exists :: "'w env \<Rightarrow> string \<Rightarrow> ('w, bool) prog" where
  "file_exists E path = (\<lambda>s. (Inr (isfile E (world s) path), s))"

definition run_shell_command :: "'w env \<Rightarrow> string \<Rightarrow> ('w, string list \<times> int option) prog" where
  "run_shell_command E cmd =
     (\<lambda>s. let ((list_output, exit_code), w') = popen E (world s) cmd;
               s' = s\<lparr>world := w', all_commands := all_commands s @ [cmd]\<rparr>
           in if \<not> shell_successfull cmd exit_code
              then (Inl (UncomparableFilesException
                      (''command '' @ squote @ cmd @ squote @ '' exited with status: ''
                         @ str_exit_code exit_code)), s')
              else (Inr (list_output, exit_code), s'))"

text \<open>
  \<open>remove_newlines\<close>: the inner \<open>while\<close> loop replaces until no newline is left.
\<close>

function remove_newlines_line :: "string \<Rightarrow> string" where
  "remove_newlines_line line =
     (if py_find line newline \<noteq> -1
      then remove_newlines_line (py_replace line newline [])
      else line)"
  by pat_completeness auto
termination
proof (relation "measure length")
  show "wf (measure length)" by simp
next
  fix line :: string
  assume found: "py_find line newline \<noteq> - 1"
  have scan_le: "length (replace_scan [c] [] s) \<le> length s" for c s
    by (induction s) auto
  have scan_lt: "find_from [c] s i \<noteq> - 1 \<Longrightarrow> length (replace_scan [c] [] s) < length s" for c s i
  proof (induction s arbitrary: i)
    case Nil
    then show ?case by simp
  next
    case (Cons a s)
    show ?case
    proof (cases "a = c")
      case True
      then show ?thesis using scan_le [of c s] by simp
    next
      case False
      with Cons.prems have "find_from [c] s (Suc i) \<noteq> - 1" by simp
      from Cons.IH [OF this] False show ?thesis by simp
    qed
  qed
  from found have "length (py_replace line newline []) < length line"
    by (auto simp: py_find_def py_replace_def newline_def intro: scan_lt)
  then show "(py_replace line newline [], line) \<in> measure length" by simp
qed

definition remove_newlines :: "string list \<Rightarrow> string list" where
  "remove_newlines input_list = map remove_newlines_line input_list"

definition diff :: "'w env \<Rightarrow> string \<Rightarrow> string \<Rightarrow> ('w, string list) prog" where
  "diff E path1 path2 =
     (let awk_cmd = ''awk '' @ squote @ ''{print $2 '' @ dquote @ '' '' @ dquote @ '' $4}'' @ squote;
          diff_cmd = ''diff '' @ DIFF_ARGS @ '' '' @ path1 @ '' '' @ path2;
          full_cmd = diff_cmd @ '' | '' @ awk_cmd
      in bnd (run_shell_command E full_cmd) (\<lambda>(output, _). ret (remove_newlines output)))"

text \<open>
  \<open>unzip\<close>: \<open>run_shell_command\<close> already raises on an abnormal exit, so the check after
  it can only pass; it is kept as the source has it.
\<close>

definition unzip :: "'w env \<Rightarrow> config \<Rightarrow> string \<Rightarrow> string \<Rightarrow> ('w, unit) prog" where
  "unzip E cfg src dst =
     (let cmd = ''unzip -q '' @ src @ '' -d '' @ dst
      in bnd (run_shell_command E cmd) (\<lambda>(_, exit_code).
           if \<not> shell_successfull cmd exit_code
           then thn (print_error cfg (''unable unzipping file '' @ src @ '' to '' @ dst
                        @ '', exit code: '' @ str_exit_code exit_code))
                    (sys_exit 1)
           else ret ()))"

definition get_file_type :: "'w env \<Rightarrow> string \<Rightarrow> ('w, string) prog" where
  "get_file_type E path =
     (let awk_command = ''awk -F '' @ dquote @ '': '' @ dquote @ '' '' @ squote @ ''{print $2}'' @ squote
      in bnd (run_shell_command E (''file '' @ path @ '' | '' @ awk_command)) (\<lambda>(output, _).
           py_index output 0))"

definition is_text_file :: "'w env \<Rightarrow> string \<Rightarrow> ('w, bool) prog" where
  "is_text_file E path =
     bnd (get_file_type E path) (\<lambda>file_type. ret (py_in ''text'' (lower file_type)))"

section \<open>Logical paths\<close>

text \<open>The loop of \<open>get_relative_path\<close> that collapses repeated slashes.\<close>

function collapse_slashes :: "string \<Rightarrow> string" where
  "collapse_slashes rpath =
     (if py_find rpath ''//'' \<noteq> -1
      then collapse_slashes (py_replace rpath ''//'' ''/'')
      else rpath)"
  by pat_completeness auto
termination
proof (relation "measure length")
  show "wf (measure length)" by simp
next
  fix rpath :: string
  assume found: "py_find rpath ''//'' \<noteq> - 1"
  have scan_le: "length (replace_scan ''//'' ''/'' s) \<le> length s" for s
  proof (induction s rule: length_induct)
    case (1 s)
    show ?case
    proof (cases s)
      case Nil
      then show ?thesis by simp
    next
      case (Cons a t)
      have "length (replace_scan ''//'' ''/'' t) \<le> length t"
        using 1 Cons by simp
      moreover have "length (drop 1 t) < length s"
        using Cons by simp
      then have "length (replace_scan ''//'' ''/'' (drop 1 t)) \<le> length (drop 1 t)"
        using 1 by blast
      ultimately show ?thesis using Cons by (cases t) auto
    qed
  qed
  have scan_lt: "find_from ''//'' s i \<noteq> - 1 \<Longrightarrow> length (replace_scan ''//'' ''/'' s) < length s"
    for s i
  proof (induction s arbitrary: i)
    case Nil
    then show ?case by simp
  next
    case (Cons a s)
    show ?case
    proof (cases "startswith (a # s) ''//''")
      case True
      then show ?thesis using scan_le [of "drop 1 s"] by (cases s) auto
    next
      case False
      with Cons.prems have "find_from ''//'' s (Suc i) \<noteq> - 1"
        by (simp del: startswith.simps)
      from Cons.IH [OF this] False show ?thesis
        by (simp del: startswith.simps)
    qed
  qed
  from found have "length (py_replace rpath ''//'' ''/'') < length rpath"
    by (auto simp: py_find_def py_replace_def intro: scan_lt)
  then show "(py_replace rpath ''//'' ''/'', rpath) \<in> measure length" by simp
qed

definition get_relative_path :: "config \<Rightarrow> string \<Rightarrow> string" where
  "get_relative_path cfg path =
     (let rpath = py_replace path (TMP_DIRECTORY @ ''/target-files/'' @ ZIP_FILENAME_1 cfg) [];
          rpath = py_replace rpath (TMP_DIRECTORY @ ''/target-files/'' @ ZIP_FILENAME_2 cfg) [];
          rpath = py_replace rpath (ROOT_COMPARISON @ ''/apks'') [];
          rpath = py_replace rpath (ROOT_COMPARISON @ ''/capex'') [];
          rpath = py_replace rpath (ROOT_COMPARISON @ ''/apex'') [];
          rpath = py_replace rpath (ROOT_COMPARISON @ ''/ext4'') [];
          rpath = py_replace rpath (ROOT_COMPARISON @ ''/lz4'') [];
          rpath = py_replace rpath (ROOT_COMPARISON @ ''/imgs'') [];
          rpath = py_replace rpath (ROOT_COMPARISON @ ''/gz'') [];
          rpath = py_replace rpath (ROOT_COMPARISON @ ''/zip'') [];
          rpath = py_replace rpath (ZIP_FILENAME_1 cfg) [];
          rpath = py_replace rpath (ZIP_FILENAME_2 cfg) [];
          rpath = py_replace rpath ROOT_COMPARISON [];
          rpath = py_replace rpath ''unzip_boot'' [];
          rpath = collapse_slashes rpath
      in if startswith rpath ''/'' then slice_from rpath 1 else rpath)"

definition get_new_parent_dir :: "config \<Rightarrow> string \<Rightarrow> string \<Rightarrow> string" where
  "get_new_parent_dir cfg path current_parent =
     (let relative_name = get_relative_path cfg path;
          fname = get_filename path;
          findex = py_rfind current_parent ''/'';
          parent_file = slice_from current_parent (findex + 1);
          parent_dir = slice_to current_parent findex
      in if py_in parent_file relative_name
         then parent_dir @ ''/'' @ relative_name
         else current_parent @ ''/'' @ fname)"

section \<open>Map-file sorting\<close>

text \<open>
  Files hold bytes. \<open>open(path, "r")\<close> and \<open>open(path, "w")\<close> work in text mode: the
  bytes are decoded with the encoding of the locale (errors are strict), and the program
  sees a string of code points. The encoding is a parameter of the model; \<open>utf8\<close> below
  is the usual one.
\<close>

type_synonym unicode = "nat list"

record codec =
  decode :: "string \<Rightarrow> unicode option"
  encode :: "unicode \<Rightarrow> string option"

definition is_continuation :: "nat \<Rightarrow> bool" where
  "is_continuation b = (128 \<le> b \<and> b \<le> 191)"

text \<open>
  Strict UTF-8 on byte values: no overlong forms, no surrogates, nothing above
  \<open>0x10FFFF\<close>.
\<close>

fun utf8_decode :: "nat list \<Rightarrow> unicode option" where
  "utf8_decode [] = Some []"
| "utf8_decode (b # bs) =
     (if b < 128 then map_option ((#) b) (utf8_decode bs)
      else if 194 \<le> b \<and> b \<le> 223 then
        (case bs of
           b1 # rest \<Rightarrow>
             if is_continuation b1
             then map_option ((#) ((b - 192) * 64 + (b1 - 128))) (utf8_decode rest)
             else None
         | [] \<Rightarrow> None)
      else if 224 \<le> b \<and> b \<le> 239 then
        (case bs of
           b1 # b2 # rest \<Rightarrow>
             if (if b = 224 then 160 else 128) \<le> b1 \<and> b1 \<le> (if b = 237 then 159 else 191)
                \<and> is_continuation b2
             then map_option ((#) ((b - 224) * 4096 + (b1 - 128) * 64 + (b2 - 128)))
                    (utf8_decode rest)
             else None
         | _ \<Rightarrow> None)
      else if 240 \<le> b \<and> b \<le> 244 then
        (case bs of
           b1 # b2 # b3 # rest \<Rightarrow>
             if (if b = 240 then 144 else 128) \<le> b1 \<and> b1 \<le> (if b = 244 then 143 else 191)
                \<and> is_continuation b2 \<and> is_continuation b3
             then map_option
                    ((#) ((b - 240) * 262144 + (b1 - 128) * 4096 + (b2 - 128) * 64 + (b3 - 128)))
                    (utf8_decode rest)
             else None
         | _ \<Rightarrow> None)
      else None)"

fun utf8_encode :: "unicode \<Rightarrow> nat list option" where
  "utf8_encode [] = Some []"
| "utf8_encode (cp # cps) =
     (if cp < 128 then map_option ((#) cp) (utf8_encode cps)
      else if cp < 2048 then
        map_option (\<lambda>r. (192 + cp div 64) # (128 + cp mod 64) # r) (utf8_encode cps)
      else if cp < 65536 then
        (if 55296 \<le> cp \<and> cp \<le> 57343 then None
         else map_option
                (\<lambda>r. (224 + cp div 4096) # (128 + cp div 64 mod 64) # (128 + cp mod 64) # r)
                (utf8_encode cps))
      else if cp < 1114112 then
        map_option
          (\<lambda>r. (240 + cp div 262144) # (128 + cp div 4096 mod 64) # (128 + cp div 64 mod 64)
                  # (128 + cp mod 64) # r)
          (utf8_encode cps)
      else None)"

definition utf8 :: codec where
  "utf8 = \<lparr>decode = (\<lambda>bytes. utf8_decode (map of_char bytes)),
           encode = (\<lambda>content. map_option (map char_of) (utf8_encode content))\<rparr>"

text \<open>
  Reading in text mode translates the line ends \<open>CR LF\<close> and \<open>CR\<close> to \<open>LF\<close>
  (universal newlines). Writing translates \<open>LF\<close> to the line separator of the
  platform, which is \<open>LF\<close> itself on POSIX.
\<close>

fun universal_newlines :: "unicode \<Rightarrow> unicode" where
  "universal_newlines [] = []"
| "universal_newlines (c # cs) =
     (if c = 13
      then (case cs of
              [] \<Rightarrow> [10]
            | d # ds \<Rightarrow> if d = 10 then 10 # universal_newlines ds else 10 # universal_newlines cs)
      else c # universal_newlines cs)"

text \<open>
  \<open>readlines\<close>: the lines of the translated text, each with its terminating \<open>LF\<close>; a
  last line without terminator is kept as it is.
\<close>

fun readlines :: "unicode \<Rightarrow> unicode list" where
  "readlines [] = []"
| "readlines (c # cs) =
     (if c = 10 then [c] # readlines cs
      else (case readlines cs of
              [] \<Rightarrow> [[c]]
            | l # ls \<Rightarrow> (c # l) # ls))"

definition read_from_file :: "codec \<Rightarrow> filesystem \<Rightarrow> string \<Rightarrow> error + unicode list" where
  "read_from_file enc fs path =
     (case fs path of
        None \<Rightarrow> Inl FileNotFoundError
      | Some bytes \<Rightarrow>
          (case decode enc bytes of
             None \<Rightarrow> Inl UnicodeDecodeError
           | Some content \<Rightarrow> Inr (readlines (universal_newlines content))))"

definition write_to_file :: "codec \<Rightarrow> unicode \<Rightarrow> string \<Rightarrow> filesystem \<Rightarrow> error + filesystem" where
  "write_to_file enc content path fs =
     (case encode enc content of
        None \<Rightarrow> Inl UnicodeEncodeError
      | Some bytes \<Rightarrow> Inr (fs(path \<mapsto> bytes)))"

text \<open>
  \<open>list.sort()\<close> on strings is the lexicographic order on code points, which is the
  order of \<open>unicode\<close> here.
\<close>

definition sort_files :: "codec \<Rightarrow> filesystem \<Rightarrow> string \<Rightarrow> string \<Rightarrow> error + filesystem" where
  "sort_files enc fs file1 file2 =
     (case read_from_file enc fs file1 of
        Inl e \<Rightarrow> Inl e
      | Inr f1_content \<Rightarrow>
          (case read_from_file enc fs file2 of
             Inl e \<Rightarrow> Inl e
           | Inr f2_content \<Rightarrow>
               (case write_to_file enc (concat (sort f1_content)) file1 fs of
                  Inl e \<Rightarrow> Inl e
                | Inr fs1 \<Rightarrow> write_to_file enc (concat (sort f2_content)) file2 fs1)))"

section \<open>Extraction strategies\<close>

definition extract_7z_files ::
  "'w env \<Rightarrow> string \<Rightarrow> string \<Rightarrow> string \<Rightarrow> string \<Rightarrow> bool \<Rightarrow> ('w, unit) prog" where
  "extract_7z_files E file1 file2 target1 target2 use_sim2img =
     (let file1_fullname = get_filename file1;
          file2_fullname = get_filename file2
      in thn (run_shell_command E (''rm -rf '' @ target1 @ '' '' @ target2))
        (thn (run_shell_command E (''mkdir -p '' @ target1 @ '' '' @ target2))
        (thn (run_shell_command E (''cp '' @ file1 @ '' '' @ target1))
        (thn (run_shell_command E (''cp '' @ file2 @ '' '' @ target2))
        (if use_sim2img
         then
           (let extract_file1 = ''simg2img '' @ file1_fullname @ '' '' @ file1_fullname
                  @ ''.iso && 7z -bb0 -bd x '' @ file1_fullname @ ''.iso'';
                extract_file2 = ''simg2img '' @ file2_fullname @ '' '' @ file2_fullname
                  @ ''.iso && 7z -bb0 -bd x '' @ file2_fullname @ ''.iso''
            in thn (run_shell_command E (''cd '' @ target1 @ '' && '' @ extract_file1
                      @ '' > /dev/null && rm -f '' @ file1_fullname @ ''* *.log''))
              (thn (run_shell_command E (''cd '' @ target2 @ '' && '' @ extract_file2
                      @ '' > /dev/null && rm -f '' @ file2_fullname @ ''* *.log''))
                   (ret ())))
         else
           thn (run_shell_command E (''cd '' @ target1 @ '' && 7z -bb0 -bd x '' @ file1_fullname
                  @ '' > /dev/null && rm -f '' @ file1_fullname @ '' *.log''))
          (thn (run_shell_command E (''cd '' @ target2 @ '' && 7z -bb0 -bd x '' @ file2_fullname
                  @ '' > /dev/null && rm -f '' @ file2_fullname @ '' *.log''))
          (thn (run_shell_command E (''rm -f '' @ target1 @ ''/*.log '' @ target2 @ ''/*.log''))
               (ret ()))))))))"

definition compare_image_files ::
  "'w env \<Rightarrow> config \<Rightarrow> string \<Rightarrow> string \<Rightarrow> ('w, string list) prog" where
  "compare_image_files E cfg img1 img2 =
     (let imgfile = get_filename img1;
          img1_dst = ROOT_COMPARISON @ ''/imgs/'' @ imgfile @ ''/'' @ ZIP_FILENAME_1 cfg;
          img2_dst = ROOT_COMPARISON @ ''/imgs/'' @ imgfile @ ''/'' @ ZIP_FILENAME_2 cfg
      in if imgfile = ''userdata.img'' then ret []
         else if imgfile = ''ramdisk.img'' \<or> imgfile = ''product.img'' \<or> imgfile = ''system.img''
         then (let use_sim2img = (imgfile \<noteq> ''ramdisk.img'')
               in thn (extract_7z_files E img1 img2 img1_dst img2_dst use_sim2img)
                      (diff E img1_dst img2_dst))
         else
           (let gradlew = GRADLEW_PATH cfg;
                gradlew_bin = gradlew @ ''/gradlew'';
                gradlew_build = gradlew @ ''/build/unzip_boot/'';
                rm_gradlew_log = ''rm -f '' @ gradlew @ ''/build/unzip_boot/*.log''
            in thn (run_shell_command E (''rm -rf '' @ img1_dst @ '' '' @ img2_dst))
              (thn (run_shell_command E (''mkdir -p '' @ img1_dst @ '' '' @ img2_dst))
              (thn (run_shell_command E (''rm -f '' @ gradlew @ ''/*.img && cp '' @ img1 @ '' ~/gradlew''))
              (thn (run_shell_command E (''cd '' @ gradlew @ '' && '' @ gradlew_bin
                      @ '' unpack 2> /dev/null && '' @ rm_gradlew_log))
              (thn (run_shell_command E (''mv '' @ gradlew_build @ '' '' @ img1_dst))
              (thn (run_shell_command E (''rm -f '' @ gradlew @ ''/*.img && cp '' @ img2 @ '' ~/gradlew''))
              (thn (run_shell_command E (''cd '' @ gradlew @ '' && '' @ gradlew_bin
                      @ '' unpack 2> /dev/null && '' @ rm_gradlew_log))
              (thn (run_shell_command E (''mv '' @ gradlew_build @ '' '' @ img2_dst))
              (thn (run_shell_command E (''rm -f '' @ gradlew @ ''/*.img''))
                   (diff E img1_dst img2_dst)))))))))))"

definition compare_apex_files ::
  "'w env \<Rightarrow> config \<Rightarrow> string \<Rightarrow> string \<Rightarrow> ('w, string list) prog" where
  "compare_apex_files E cfg apex1 apex2 =
     (let apex_module = get_filename apex1;
          apex_target_dir = ROOT_COMPARISON @ ''/'' @ apex_module;
          apex1_dst = apex_target_dir @ ''/'' @ ZIP_FILENAME_1 cfg;
          apex2_dst = apex_target_dir @ ''/'' @ ZIP_FILENAME_2 cfg;
          notice_file1 = apex1_dst @ ''/assets/NOTICE.html.gz'';
          notice_file2 = apex2_dst @ ''/assets/NOTICE.html.gz''
      in thn (run_shell_command E (''mkdir -p '' @ apex1_dst @ '' '' @ apex2_dst))
        (thn (bnd (dir_exists E apex1_dst) (\<lambda>ex.
                if ex then thn (run_shell_command E (''rm -rf '' @ apex1_dst @ ''/*'')) (ret ())
                else ret ()))
        (thn (bnd (dir_exists E apex2_dst) (\<lambda>ex.
                if ex then thn (run_shell_command E (''rm -rf '' @ apex2_dst @ ''/*'')) (ret ())
                else ret ()))
        (thn (unzip E cfg apex1 apex1_dst)
        (thn (unzip E cfg apex2 apex2_dst)
        (thn (bnd (file_exists E notice_file1) (\<lambda>ex1.
                if ex1
                then bnd (file_exists E notice_file2) (\<lambda>ex2.
                       if ex2
                       then thn (run_shell_command E (''gzip -d '' @ notice_file1))
                           (thn (run_shell_command E (''gzip -d '' @ notice_file2)) (ret ()))
                       else ret ())
                else ret ()))
             (diff E apex1_dst apex2_dst)))))))"

definition compare_capex_files ::
  "'w env \<Rightarrow> config \<Rightarrow> string \<Rightarrow> string \<Rightarrow> ('w, string list) prog" where
  "compare_capex_files E cfg capex1 capex2 =
     (let capex_module = get_filename capex1;
          capex_target_dir = ROOT_COMPARISON @ ''/'' @ capex_module;
          capex1_dst = capex_target_dir @ ''/'' @ ZIP_FILENAME_1 cfg;
          capex2_dst = capex_target_dir @ ''/'' @ ZIP_FILENAME_2 cfg;
          original_apex1 = capex1_dst @ ''/original_apex'';
          original_apex2 = capex2_dst @ ''/original_apex'';
          original_apex1_file = original_apex1 @ ''.apex'';
          original_apex2_file = original_apex2 @ ''.apex'';
          notice_file1 = original_apex1 @ ''/assets/NOTICE.html.gz'';
          notice_file2 = original_apex2 @ ''/assets/NOTICE.html.gz''
      in thn (run_shell_command E (''rm -rf '' @ capex1_dst))
        (thn (run_shell_command E (''rm -rf '' @ capex2_dst))
        (thn (run_shell_command E (''mkdir -p '' @ capex1_dst @ '' '' @ capex2_dst))
        (thn (unzip E cfg capex1 capex1_dst)
        (thn (unzip E cfg capex2 capex2_dst)
        (thn (run_shell_command E (''mv '' @ original_apex1 @ '' '' @ original_apex1_file))
        (thn (run_shell_command E (''mv '' @ original_apex2 @ '' '' @ original_apex2_file))
        (thn (unzip E cfg original_apex1_file original_apex1)
        (thn (unzip E cfg original_apex2_file original_apex2)
        (thn (run_shell_command E (''rm '' @ original_apex1_file))
        (thn (run_shell_command E (''rm '' @ original_apex2_file))
        (thn (bnd (file_exists E notice_file1) (\<lambda>ex1.
                if ex1
                then bnd (file_exists E notice_file2) (\<lambda>ex2.
                       if ex2
                       then thn (run_shell_command E (''gzip -d '' @ notice_file1))
                           (thn (run_shell_command E (''gzip -d '' @ notice_file2)) (ret ()))
                       else ret ())
                else ret ()))
             (diff E capex1_dst capex2_dst)))))))))))))"

definition compare_apk_files ::
  "'w env \<Rightarrow> config \<Rightarrow> string \<Rightarrow> string \<Rightarrow> ('w, string list) prog" where
  "compare_apk_files E cfg apk1 apk2 =
     (let rpath = get_relative_path cfg apk1;
          apk_target = ROOT_COMPARISON @ ''/apks/'' @ rpath;
          apk1_dst = apk_target @ ''/'' @ ZIP_FILENAME_1 cfg;
          apk2_dst = apk_target @ ''/'' @ ZIP_FILENAME_2 cfg
      in thn (run_shell_command E (''rm -rf '' @ apk1_dst @ '' '' @ apk2_dst))
        (thn (run_shell_command E (''mkdir -p '' @ apk1_dst @ '' '' @ apk2_dst))
        (thn (unzip E cfg apk1 apk1_dst)
        (thn (unzip E cfg apk2 apk2_dst)
             (diff E apk1_dst apk2_dst)))))"

definition compare_zip_files ::
  "'w env \<Rightarrow> config \<Rightarrow> string \<Rightarrow> string \<Rightarrow> ('w, string list) prog" where
  "compare_zip_files E cfg zip1 zip2 =
     (let rpath = get_relative_path cfg zip1;
          zipfile_target_dir = ROOT_COMPARISON @ ''/zip/'' @ rpath;
          zip1_dst = zipfile_target_dir @ ''/'' @ ZIP_FILENAME_1 cfg;
          zip2_dst = zipfile_target_dir @ ''/'' @ ZIP_FILENAME_2 cfg
      in thn (run_shell_command E (''rm -rf '' @ zip1_dst @ '' '' @ zip2_dst))
        (thn (run_shell_command E (''mkdir -p '' @ zip1_dst @ '' '' @ zip2_dst))
        (thn (unzip E cfg zip1 zip1_dst)
        (thn (unzip E cfg zip2 zip2_dst)
             (diff E zip1_dst zip2_dst)))))"

definition compare_gz_files ::
  "'w env \<Rightarrow> config \<Rightarrow> string \<Rightarrow> string \<Rightarrow> ('w, string list) prog" where
  "compare_gz_files E cfg gz1 gz2 =
     (let gz_filename = get_filename gz1;
          gz_target_dir = ROOT_COMPARISON @ ''/gz/'' @ gz_filename;
          gz1_dst = gz_target_dir @ ''/'' @ ZIP_FILENAME_1 cfg;
          gz2_dst = gz_target_dir @ ''/'' @ ZIP_FILENAME_2 cfg;
          gz1_target = gz1_dst @ ''/'' @ get_filename gz1;
          gz2_target = gz2_dst @ ''/'' @ get_filename gz2
      in thn (run_shell_command E (''mkdir -p '' @ gz1_dst @ '' '' @ gz2_dst))
        (thn (run_shell_command E (''cp '' @ gz1 @ '' '' @ gz1_dst))
        (thn (run_shell_command E (''cp '' @ gz2 @ '' '' @ gz2_dst))
        (thn (run_shell_command E (''gzip -d '' @ gz1_target))
        (thn (run_shell_command E (''gzip -d '' @ gz2_target))
             (diff E gz1_dst gz2_dst))))))"

definition compare_lz4_files ::
  "'w env \<Rightarrow> config \<Rightarrow> string \<Rightarrow> string \<Rightarrow> ('w, string list) prog" where
  "compare_lz4_files E cfg lz41 lz42 =
     (let lz4_filename = get_filename lz41;
          lz4_target_dir = ROOT_COMPARISON @ ''/lz4/'' @ lz4_filename;
          lz41_dst = lz4_target_dir @ ''/'' @ lz4_filename @ ''/'' @ ZIP_FILENAME_1 cfg;
          lz42_dst = lz4_target_dir @ ''/'' @ lz4_filename @ ''/'' @ ZIP_FILENAME_2 cfg;
          lz41_target = lz41_dst @ ''/'' @ lz4_filename;
          lz42_target = lz42_dst @ ''/'' @ lz4_filename
      in thn (run_shell_command E (''rm -rf '' @ lz41_dst @ '' '' @ lz42_dst))
        (thn (run_shell_command E (''mkdir -p '' @ lz41_dst @ '' '' @ lz42_dst))
        (thn (run_shell_command E (''lz4 -q '' @ lz41 @ '' -dc > '' @ lz41_target))
        (thn (run_shell_command E (''lz4 -q '' @ lz42 @ '' -dc > '' @ lz42_target))
        (thn (run_shell_command E (''rm -f '' @ lz41_target @ '' '' @ lz42_target))
             (diff E lz41_dst lz42_dst))))))"

definition compare_ext4_files ::
  "'w env \<Rightarrow> config \<Rightarrow> string \<Rightarrow> string \<Rightarrow> ('w, string list) prog" where
  "compare_ext4_files E cfg ext41 ext42 =
     (let ext4_filename = get_filename ext41;
          ext4_target_dir = ROOT_COMPARISON @ ''/ext4/'' @ ext4_filename;
          ext41_dst = ext4_target_dir @ ''/'' @ ZIP_FILENAME_1 cfg;
          ext42_dst = ext4_target_dir @ ''/'' @ ZIP_FILENAME_2 cfg
      in thn (extract_7z_files E ext41 ext42 ext41_dst ext42_dst False)
             (diff E ext41_dst ext42_dst))"

section \<open>The recursive comparator\<close>

definition can_extract_further :: "string list \<Rightarrow> string list" where
  "can_extract_further diffs =
     (let extractable_extensions =
            [''.apex'', ''.capex'', ''.img'', ''.apk'', ''.zip'', ''.gz'', ''.lz4'', ''.ext4'']
      in filter (\<lambda>file_pair.
                   (let file1 = (case py_split file_pair CHR '' '' of [] \<Rightarrow> [] | w # _ \<Rightarrow> w);
                        ext = extension file1
                    in ext \<in> set extractable_extensions))
           diffs)"

definition set_diffs :: "string \<Rightarrow> string list \<Rightarrow> ('w, unit) prog" where
  "set_diffs parent_dir files = (\<lambda>s. (Inr (), s\<lparr>diffs_dict := dict_set parent_dir files (diffs_dict s)\<rparr>))"

definition append_apk_files :: "string \<Rightarrow> ('w, unit) prog" where
  "append_apk_files file_pair = (\<lambda>s. (Inr (), s\<lparr>apk_files := apk_files s @ [file_pair]\<rparr>))"

text \<open>
  The \<open>if\<close>/\<open>elif\<close> chain of \<open>compare_files_recursive\<close> that chooses the strategy:
  \<open>Some diffs\<close> is the value assigned to \<open>diffs\<close>, \<open>None\<close> is the final \<open>else\<close>
  (unsupported file), which the caller completes.
\<close>

definition compare_by_extension ::
  "'w env \<Rightarrow> config \<Rightarrow> string \<Rightarrow> string \<Rightarrow> string \<Rightarrow> ('w, string list option) prog" where
  "compare_by_extension E cfg ext file1 file2 =
     (if ext = ''img'' then bnd (compare_image_files E cfg file1 file2) (\<lambda>diffs. ret (Some diffs))
      else bnd (is_text_file E file1) (\<lambda>is_text.
        if is_text then ret (Some [file1 @ '' '' @ file2])
        else if ext = ''apex'' then
          bnd (compare_apex_files E cfg file1 file2) (\<lambda>diffs. ret (Some diffs))
        else if ext = ''capex'' then
          bnd (compare_capex_files E cfg file1 file2) (\<lambda>diffs. ret (Some diffs))
        else if ext = ''apk'' then
          thn (append_apk_files (file1 @ '' '' @ file2))
              (bnd (compare_apk_files E cfg file1 file2) (\<lambda>diffs. ret (Some diffs)))
        else if ext = ''zip'' then
          bnd (compare_zip_files E cfg file1 file2) (\<lambda>diffs. ret (Some diffs))
        else if ext = ''gz'' then
          bnd (compare_gz_files E cfg file1 file2) (\<lambda>diffs. ret (Some diffs))
        else if ext = ''lz4'' then
          bnd (compare_lz4_files E cfg file1 file2) (\<lambda>diffs. ret (Some diffs))
        else if ext = ''ext4'' then
          bnd (compare_ext4_files E cfg file1 file2) (\<lambda>diffs. ret (Some diffs))
        else ret None))"

text \<open>
  The \<open>for\<close> loop at the end of \<open>compare_files_recursive\<close>; \<open>rec\<close> is the recursive
  call.
\<close>

fun recurse_loop ::
  "(string \<Rightarrow> string \<Rightarrow> string \<Rightarrow> ('w, string option \<times> string list) prog)
     \<Rightarrow> config \<Rightarrow> string \<Rightarrow> string list \<Rightarrow> string list \<Rightarrow> ('w, string list) prog" where
  "recurse_loop rec cfg parent_dir [] new_diffs = ret new_diffs"
| "recurse_loop rec cfg parent_dir (file_pair # rest) new_diffs =
     bnd (py_index (py_split file_pair CHR '' '') 0) (\<lambda>file1.
     bnd (py_index (py_split file_pair CHR '' '') 1) (\<lambda>file2.
       (let new_parent_dir = get_new_parent_dir cfg file1 parent_dir
        in bnd (rec file1 file2 new_parent_dir) (\<lambda>(_, diffs).
             recurse_loop rec cfg parent_dir rest (new_diffs @ diffs)))))"

text \<open>
  \<open>compare_files_recursive\<close>. The first argument is the number of nested calls the
  interpreter still allows. The two set differences are taken in order of first
  occurrence; Python leaves the order of \<open>list(set(...))\<close> open.
\<close>

primrec compare_files_recursive ::
  "nat \<Rightarrow> 'w env \<Rightarrow> config \<Rightarrow> string \<Rightarrow> string \<Rightarrow> string
     \<Rightarrow> ('w, string option \<times> string list) prog" where
  "compare_files_recursive 0 E cfg file1 file2 parent_dir = raise RecursionError"
| "compare_files_recursive (Suc depth) E cfg file1 file2 parent_dir =
     (let ext1 = extension file1;
          ext2 = extension file2;
          ext = slice_from ext1 1
      in if \<not> ext1 = ext2
         then thn (print_error cfg (''cannot compare '' @ squote @ ext1 @ squote @ '' and ''
                      @ squote @ ext2 @ squote @ '' files. Not the same extension!''))
                  (sys_exit 1)
         else bnd (compare_by_extension E cfg ext file1 file2) (\<lambda>chosen.
           case chosen of
             None \<Rightarrow>
               thn (set_diffs parent_dir [file1 @ '' '' @ file2])
                   (ret (Some parent_dir, [file1 @ '' '' @ file2]))
           | Some diffs \<Rightarrow>
               (\<lambda>s.
                 (let further_extractable = can_extract_further diffs;
                      new_diffs_to_compare =
                        remdups (filter (\<lambda>p. p \<notin> set (uncomparable_files s)) further_extractable);
                      previous_diffs =
                        remdups (filter (\<lambda>p. p \<notin> set new_diffs_to_compare) diffs)
                  in thn (if length previous_diffs > 0 then set_diffs parent_dir previous_diffs
                          else ret ())
                         (if length new_diffs_to_compare = 0 then ret (Some parent_dir, diffs)
                          else bnd (recurse_loop (compare_files_recursive depth E cfg) cfg
                                      parent_dir new_diffs_to_compare [])
                                 (\<lambda>new_diffs. ret (None, previous_diffs @ new_diffs))))
                 s)))"

definition compare_files ::
  "nat \<Rightarrow> 'w env \<Rightarrow> config \<Rightarrow> string \<Rightarrow> string \<Rightarrow> string
     \<Rightarrow> ('w, (string \<times> string list) list) prog" where
  "compare_files limit E cfg file1 file2 parent_dir =
     (\<lambda>s. case compare_files_recursive limit E cfg file1 file2 parent_dir (s\<lparr>diffs_dict := []\<rparr>) of
             (Inl e, s') \<Rightarrow> (Inl e, s')
           | (Inr _, s') \<Rightarrow> (Inr (diffs_dict s'), s'))"

section \<open>The top-level comparison\<close>



text \<open>
  The \<open>for\<close> loop of \<open>compare_target_files\<close> (lines 110 to 124): only
  \<open>UncomparableFilesException\<close> is caught; the handler appends the pair to
  \<open>uncomparable_files\<close> and exits.
\<close>

fun compare_target_loop ::
  "nat \<Rightarrow> 'w env \<Rightarrow> config \<Rightarrow> string list \<Rightarrow> (string \<times> string list) list
     \<Rightarrow> ('w, (string \<times> string list) list) prog" where
  "compare_target_loop limit E cfg [] all_diffs = ret all_diffs"
| "compare_target_loop limit E cfg (file_pair # rest) all_diffs =
     bnd (py_index (py_split file_pair CHR '' '') 0) (\<lambda>file1.
     bnd (py_index (py_split file_pair CHR '' '') 1) (\<lambda>file2.
       (let parent_dir = get_relative_path cfg file1
        in (\<lambda>s. case compare_files limit E cfg file1 file2 parent_dir s of
                   (Inr diffs, s') \<Rightarrow>
                     compare_target_loop limit E cfg rest (dict_update all_diffs diffs) s'
                 | (Inl (UncomparableFilesException ex), s') \<Rightarrow>
                     sys_exit 1
                       (s'\<lparr>uncomparable_files := uncomparable_files s' @ [file1 @ '' '' @ file2]\<rparr>)
                 | (Inl e, s') \<Rightarrow> (Inl e, s')))))"


section \<open>The claims in the specification's words\<close>

text \<open>
  The exit criterion as the specification words it: a status is abnormal when it is 2
  for \<open>diff\<close> and \<open>grep\<close>, and when it is not zero for every other program.
\<close>

definition first_word :: "string \<Rightarrow> string" where
  "first_word cmd = takeWhile (\<lambda>c. c \<noteq> CHR '' '') cmd"

definition abnormal_exit :: "string \<Rightarrow> int \<Rightarrow> bool" where
  "abnormal_exit cmd code =
     (if first_word cmd = ''diff'' \<or> first_word cmd = ''grep'' then code = 2 else code \<noteq> 0)"

text \<open>
  The deduplication rule as the specification words it: a tuple is a duplicate when both
  of its files are byte-identical to the corresponding files of one kept tuple.
\<close>

definition duplicate_of_kept_pair :: "filesystem \<Rightarrow> file_tuple list \<Rightarrow> file_tuple \<Rightarrow> bool" where
  "duplicate_of_kept_pair fs kept t =
     list_ex (\<lambda>k. files_are_equal fs (fst (snd k)) (fst (snd t))
                 \<and> files_are_equal fs (snd (snd k)) (snd (snd t))) kept"

text \<open>
  The rule the code applies: a tuple is dropped when its first file equals the first
  file of a kept tuple, or its second file equals the second file of a kept tuple.
\<close>

definition seen_on_either_side :: "filesystem \<Rightarrow> file_tuple list \<Rightarrow> file_tuple \<Rightarrow> bool" where
  "seen_on_either_side fs kept t =
     (list_ex (\<lambda>k. files_are_equal fs (fst (snd k)) (fst (snd t))) kept
      \<or> list_ex (\<lambda>k. files_are_equal fs (snd (snd k)) (snd (snd t))) kept)"

section \<open>Example worlds\<close>

definition cfg0 :: config where
  "cfg0 = \<lparr>ZIP_FILENAME_1 = ''a.zip'', ZIP_FILENAME_2 = ''b.zip'',
           GRADLEW_PATH = ''~/gradlew'', argv0 = ''catf.py''\<rparr>"

definition init_state :: "'w \<Rightarrow> 'w state" where
  "init_state w = \<lparr>world = w, all_commands = [], uncomparable_files = [], apk_files = [],
                   diffs_dict = [], stderr = []\<rparr>"

text \<open>A world where every command succeeds and \<open>file\<close> calls everything text.\<close>

definition text_env :: "unit env" where
  "text_env = \<lparr>popen = (\<lambda>w cmd. (([''ASCII text'' @ newline], None), w)),
               isdir = (\<lambda>w path. False), isfile = (\<lambda>w path. False)\<rparr>"

text \<open>A world where every command succeeds with no output and \<open>file\<close> says \<open>data\<close>.\<close>

definition data_env :: "unit env" where
  "data_env = \<lparr>popen = (\<lambda>w cmd. ((if startswith cmd ''file '' then [''data'' @ newline] else [], None), w)),
               isdir = (\<lambda>w path. True), isfile = (\<lambda>w path. False)\<rparr>"



text \<open>Three files with pairwise different contents.\<close>

definition fs_abc :: filesystem where
  "fs_abc = [''a'' \<mapsto> ''x'', ''b'' \<mapsto> ''y'', ''c'' \<mapsto> ''z'']"

text \<open>A world where every command prints nothing and ends with the given return code.\<close>

definition returncode_env :: "int \<Rightarrow> unit env" where
  "returncode_env returncode =
     \<lparr>popen = (\<lambda>w cmd. (([], popen_close returncode), w)),
      isdir = (\<lambda>w path. False), isfile = (\<lambda>w path. False)\<rparr>"


text \<open>
  Two files holding the lines \<open>a\<close> and \<open>b\<close> in different order, the last line of each
  without a terminator.
\<close>

definition fs_map :: filesystem where
  "fs_map = [''f'' \<mapsto> ''b'' @ newline @ ''a'', ''g'' \<mapsto> ''a'' @ newline @ ''b'']"

section \<open>Programs that leave the uncomparable list alone\<close>

definition keeps_uncomparable :: "('w, 'a) prog \<Rightarrow> bool" where
  "keeps_uncomparable m = (\<forall>s. uncomparable_files (snd (m s)) = uncomparable_files s)"

named_theorems keeps

section \<open>Deduplication: proofs\<close>

lemma inside_unique_list_iff: "inside_unique_list fs us p \<longleftrightarrow> (\<exists>u\<in>set us. files_are_equal fs u p)"
  by (induction us) auto

lemma filter_loop_append: "filter_duplicates_loop fs (xs @ ys) acc = filter_duplicates_loop fs ys (filter_duplicates_loop fs xs acc)"
  by (induction fs xs acc rule: filter_duplicates_loop.induct) (auto simp: Let_def)

lemma filter_loop_inv: "filter_duplicates_loop fs xs (u1, u2, fin) = (u1', u2', fin') \<Longrightarrow>
   u1 = map (\<lambda>t. fst (snd t)) fin \<Longrightarrow> u2 = map (\<lambda>t. snd (snd t)) fin \<Longrightarrow>
   u1' = map (\<lambda>t. fst (snd t)) fin' \<and> u2' = map (\<lambda>t. snd (snd t)) fin'"
  by (induction fs xs "(u1, u2, fin)" arbitrary: u1 u2 fin rule: filter_duplicates_loop.induct) (auto simp: Let_def split: if_splits)

lemma filter_loop_ext: "\<exists>zs. snd (snd (filter_duplicates_loop fs xs (u1, u2, fin))) = fin @ zs"
proof (induction xs arbitrary: u1 u2 fin)
  case Nil then show ?case by simp
next
  case (Cons t xs)
  show ?case
  proof (cases "\<not> inside_unique_list fs u1 (fst (snd t)) \<and> \<not> inside_unique_list fs u2 (snd (snd t))")
    case True
    from Cons.IH[of "u1 @ [fst (snd t)]" "u2 @ [snd (snd t)]" "fin @ [t]"]
    obtain zs where "snd (snd (filter_duplicates_loop fs xs (u1 @ [fst (snd t)], u2 @ [snd (snd t)], fin @ [t]))) = (fin @ [t]) @ zs" by blast
    with True show ?thesis by (simp add: Let_def)
  next
    case False
    with Cons.IH[of u1 u2 fin] show ?thesis by (auto simp: Let_def)
  qed
qed

lemma filter_loop_state: "filter_duplicates_loop fs xs ([], [], []) =
   (map (\<lambda>t. fst (snd t)) (filter_duplicates fs xs), map (\<lambda>t. snd (snd t)) (filter_duplicates fs xs), filter_duplicates fs xs)"
proof -
  obtain a b c where e: "filter_duplicates_loop fs xs ([], [], []) = (a, b, c)" by (cases "filter_duplicates_loop fs xs ([], [], [])") auto
  from filter_loop_inv[OF e] e show ?thesis by (simp add: filter_duplicates_def)
qed

lemma filter_duplicates_snoc: "filter_duplicates fs (pre @ [t]) =
   filter_duplicates fs pre @
    (if (\<exists>k\<in>set (filter_duplicates fs pre). files_are_equal fs (fst (snd k)) (fst (snd t)))
      \<or> (\<exists>k\<in>set (filter_duplicates fs pre). files_are_equal fs (snd (snd k)) (snd (snd t)))
     then [] else [t])"
proof -
  have "filter_duplicates fs (pre @ [t]) =
        snd (snd (filter_duplicates_loop fs [t] (filter_duplicates_loop fs pre ([], [], []))))"
    by (simp only: filter_duplicates_def filter_loop_append)
  also have "\<dots> = snd (snd (filter_duplicates_loop fs [t]
       (map (\<lambda>t. fst (snd t)) (filter_duplicates fs pre),
        map (\<lambda>t. snd (snd t)) (filter_duplicates fs pre), filter_duplicates fs pre)))"
    by (simp only: filter_loop_state)
  finally show ?thesis by (cases t) (auto simp: Let_def inside_unique_list_iff)
qed

lemma filter_duplicates_prefix: "\<exists>zs. filter_duplicates fs (pre @ post) = filter_duplicates fs pre @ zs"
proof -
  have "filter_duplicates fs (pre @ post) =
        snd (snd (filter_duplicates_loop fs post (filter_duplicates_loop fs pre ([], [], []))))"
    by (simp only: filter_duplicates_def filter_loop_append)
  also have "\<dots> = snd (snd (filter_duplicates_loop fs post
       (map (\<lambda>t. fst (snd t)) (filter_duplicates fs pre),
        map (\<lambda>t. snd (snd t)) (filter_duplicates fs pre), filter_duplicates fs pre)))"
    by (simp only: filter_loop_state)
  finally show ?thesis using filter_loop_ext by metis
qed


lemma filter_duplicates_idem_aux:
  "filter_duplicates fs (filter_duplicates fs xs) = filter_duplicates fs xs"
proof (induction xs rule: rev_induct)
  case Nil
  show ?case by (simp add: filter_duplicates_def)
next
  case (snoc t xs)
  let ?kept = "filter_duplicates fs xs"
  let ?seen = "(\<exists>k\<in>set ?kept. files_are_equal fs (fst (snd k)) (fst (snd t)))
      \<or> (\<exists>k\<in>set ?kept. files_are_equal fs (snd (snd k)) (snd (snd t)))"
  show ?case
  proof (cases ?seen)
    case True
    then have "filter_duplicates fs (xs @ [t]) = ?kept"
      by (simp add: filter_duplicates_snoc)
    with snoc show ?thesis by simp
  next
    case False
    then have e: "filter_duplicates fs (xs @ [t]) = ?kept @ [t]"
      by (simp add: filter_duplicates_snoc)
    have "filter_duplicates fs (?kept @ [t]) = ?kept @ [t]"
      using False by (simp add: filter_duplicates_snoc [of fs ?kept t] snoc.IH)
    with e show ?thesis by simp
  qed
qed

text \<open>
  C8: \<open>filter_duplicates\<close> is idempotent: with the file contents fixed, applying it to
  its own output returns that output unchanged.
\<close>

theorem filter_duplicates_idempotent:
  "filter_duplicates fs (filter_duplicates fs files_to_filter) = filter_duplicates fs files_to_filter"
  by (rule filter_duplicates_idem_aux)

theorem filter_duplicates_idempotent_witness:
  "filter_duplicates fs_abc
     (filter_duplicates fs_abc [(''p'', ''a'', ''b''), (''q'', ''a'', ''c''), (''r'', ''c'', ''a'')])
   = [(''p'', ''a'', ''b''), (''r'', ''c'', ''a'')]"
proof -
  have "filter_duplicates fs_abc [(''p'', ''a'', ''b''), (''q'', ''a'', ''c''), (''r'', ''c'', ''a'')]
        = [(''p'', ''a'', ''b''), (''r'', ''c'', ''a'')]"
    by (simp add: filter_duplicates_def fs_abc_def files_are_equal_def Let_def)
  then show ?thesis
    using filter_duplicates_idempotent
      [of fs_abc "[(''p'', ''a'', ''b''), (''q'', ''a'', ''c''), (''r'', ''c'', ''a'')]"]
    by simp
qed

text \<open>
  C1, as the code has it: \<open>filter_duplicates\<close> always keeps the first tuple; a later
  tuple is dropped exactly when its first file is byte-identical to the first file of
  some tuple kept before it, or its second file is byte-identical to the second file of
  some tuple kept before it (one side suffices, and the two matches may come from
  different kept tuples); the decision for a tuple does not depend on the tuples after it.
\<close>

theorem filter_duplicates_drops_on_either_side:
  "(\<exists>rest. filter_duplicates fs (t # ts) = t # rest)
   \<and> filter_duplicates fs (pre @ [t]) =
       filter_duplicates fs pre
         @ (if seen_on_either_side fs (filter_duplicates fs pre) t then [] else [t])
   \<and> (\<exists>rest. filter_duplicates fs (pre @ post) = filter_duplicates fs pre @ rest)"
proof (intro conjI)
  have one: "filter_duplicates fs [t] = [t]"
    by (cases t) (simp add: filter_duplicates_def Let_def)
  from filter_duplicates_prefix [of fs "[t]" ts] one
  show "\<exists>rest. filter_duplicates fs (t # ts) = t # rest" by simp
next
  show "filter_duplicates fs (pre @ [t]) =
       filter_duplicates fs pre
         @ (if seen_on_either_side fs (filter_duplicates fs pre) t then [] else [t])"
    by (simp add: filter_duplicates_snoc seen_on_either_side_def list_ex_iff)
next
  show "\<exists>rest. filter_duplicates fs (pre @ post) = filter_duplicates fs pre @ rest"
    by (rule filter_duplicates_prefix)
qed

theorem filter_duplicates_drops_on_either_side_witness:
  "filter_duplicates fs_abc ([(''p'', ''a'', ''b'')] @ [(''q'', ''a'', ''c'')]) = [(''p'', ''a'', ''b'')]"
proof -
  have kept: "filter_duplicates fs_abc [(''p'', ''a'', ''b'')] = [(''p'', ''a'', ''b'')]"
    by (simp add: filter_duplicates_def Let_def)
  have seen: "seen_on_either_side fs_abc [(''p'', ''a'', ''b'')] (''q'', ''a'', ''c'')"
    by (simp add: seen_on_either_side_def fs_abc_def files_are_equal_def)
  from filter_duplicates_drops_on_either_side
         [of fs_abc "(''q'', ''a'', ''c'')" "[]" "[(''p'', ''a'', ''b'')]" "[]"]
  have "filter_duplicates fs_abc ([(''p'', ''a'', ''b'')] @ [(''q'', ''a'', ''c'')]) =
        filter_duplicates fs_abc [(''p'', ''a'', ''b'')]
          @ (if seen_on_either_side fs_abc (filter_duplicates fs_abc [(''p'', ''a'', ''b'')])
                  (''q'', ''a'', ''c'') then [] else [(''q'', ''a'', ''c'')])"
    by blast
  with kept seen show ?thesis by simp
qed

text \<open>
  C1 as stated fails: with three files of different contents, the tuple \<open>(q, a, c)\<close> is
  dropped after \<open>(p, a, b)\<close> although \<open>c\<close> is not identical to \<open>b\<close>, so it is not a
  duplicate of a kept pair in the specification's sense.
\<close>

theorem filter_duplicates_both_files_counterexample:
  "(''q'', ''a'', ''c'') \<notin> set (filter_duplicates fs_abc [(''p'', ''a'', ''b''), (''q'', ''a'', ''c'')])
   \<and> \<not> duplicate_of_kept_pair fs_abc (filter_duplicates fs_abc [(''p'', ''a'', ''b'')]) (''q'', ''a'', ''c'')"
  by (simp add: filter_duplicates_def duplicate_of_kept_pair_def fs_abc_def files_are_equal_def Let_def)

section \<open>Exit-status criterion: proofs\<close>

lemma split_first_word:
  "(case py_split cmd CHR '' '' of [] \<Rightarrow> [] | w # _ \<Rightarrow> w) = first_word cmd"
  by (induction cmd) (auto simp: first_word_def split: list.splits)

lemma shell_successfull_abnormal:
  "shell_successfull cmd exit_code \<longleftrightarrow> \<not> (\<exists>code. exit_code = Some code \<and> abnormal_exit cmd code)"
  by (auto simp: shell_successfull_def split_first_word abnormal_exit_def split: option.splits)

lemma run_shell_command_on_close_value:
  assumes "popen E (world s) cmd = ((list_output, exit_code), w')"
  shows "fst (run_shell_command E cmd s) =
           (if \<exists>code. exit_code = Some code \<and> abnormal_exit cmd code
            then Inl (UncomparableFilesException
                   (''command '' @ squote @ cmd @ squote @ '' exited with status: ''
                      @ str_exit_code exit_code))
            else Inr (list_output, exit_code))"
  using assms by (simp add: run_shell_command_def Let_def shell_successfull_abnormal)

text \<open>
  With the value that closing the pipe really returns, \<open>diff\<close> and \<open>grep\<close> never make
  \<open>run_shell_command\<close> raise, whatever their return code: the value is never 2.
\<close>

lemma diff_never_raises:
  assumes "popen E (world s) cmd = ((list_output, popen_close returncode), w')"
    and "first_word cmd = ''diff'' \<or> first_word cmd = ''grep''"
  shows "fst (run_shell_command E cmd s) = Inr (list_output, popen_close returncode)"
proof -
  have "\<not> (\<exists>code. popen_close returncode = Some code \<and> abnormal_exit cmd code)"
    using assms(2) by (auto simp: popen_close_def abnormal_exit_def)
  with run_shell_command_on_close_value [OF assms(1)] show ?thesis by simp
qed

text \<open>For every other program the claim of C10 holds: it raises exactly on a non-zero return code.\<close>

lemma other_program_raises_iff_nonzero:
  assumes "popen E (world s) cmd = ((list_output, popen_close returncode), w')"
    and "first_word cmd \<noteq> ''diff''" and "first_word cmd \<noteq> ''grep''"
  shows "(\<exists>msg. fst (run_shell_command E cmd s) = Inl (UncomparableFilesException msg))
           \<longleftrightarrow> returncode \<noteq> 0"
proof -
  have "(\<exists>code. popen_close returncode = Some code \<and> abnormal_exit cmd code) \<longleftrightarrow> returncode \<noteq> 0"
    using assms(2,3) by (auto simp: popen_close_def abnormal_exit_def)
  with run_shell_command_on_close_value [OF assms(1)] show ?thesis by auto
qed

text \<open>
  C10 at a failing input: a \<open>diff\<close> command that exits with status 2 (trouble). Closing
  the pipe returns 512, \<open>shell_successfull\<close> compares that value with 2, and
  \<open>run_shell_command\<close> returns normally with the status 512; the same holds for every
  return code of \<open>diff\<close>.
\<close>

theorem diff_trouble_returns_normally:
  "popen_close 2 = Some 512
   \<and> shell_successfull ''diff -wB --color=always a b'' (popen_close 2)
   \<and> run_shell_command (returncode_env 2) ''diff -wB --color=always a b'' (init_state ())
       = (Inr ([], Some 512),
          \<lparr>world = (), all_commands = [''diff -wB --color=always a b''], uncomparable_files = [],
           apk_files = [], diffs_dict = [], stderr = []\<rparr>)
   \<and> (\<forall>returncode.
         fst (run_shell_command (returncode_env returncode) ''diff -wB --color=always a b''
                (init_state ()))
         = Inr ([], popen_close returncode))"
proof -
  have w: "first_word ''diff -wB --color=always a b'' = ''diff''"
    by (simp add: first_word_def)
  have c: "popen_close 2 = Some 512" by (simp add: popen_close_def)
  have ok: "shell_successfull ''diff -wB --color=always a b'' (popen_close 2)"
    unfolding shell_successfull_abnormal c by (simp add: abnormal_exit_def w)
  have run: "run_shell_command (returncode_env 2) ''diff -wB --color=always a b'' (init_state ())
       = (Inr ([], Some 512),
          \<lparr>world = (), all_commands = [''diff -wB --color=always a b''], uncomparable_files = [],
           apk_files = [], diffs_dict = [], stderr = []\<rparr>)"
    using ok unfolding c
    by (simp add: run_shell_command_def returncode_env_def c init_state_def Let_def)
  have all: "fst (run_shell_command (returncode_env returncode) ''diff -wB --color=always a b''
                (init_state ()))
         = Inr ([], popen_close returncode)" for returncode
  proof (rule diff_never_raises)
    show "popen (returncode_env returncode) (world (init_state ())) ''diff -wB --color=always a b''
            = (([], popen_close returncode), ())"
      by (simp add: returncode_env_def)
    show "first_word ''diff -wB --color=always a b'' = ''diff''
            \<or> first_word ''diff -wB --color=always a b'' = ''grep''"
      using w by simp
  qed
  from c ok run all show ?thesis by blast
qed

section \<open>The recursive comparator: proofs\<close>

lemma is_text_file_state:
  assumes "is_text_file E path s = (Inr b, s1)"
  shows "s1 = s\<lparr>world := snd (popen E (world s) (''file '' @ path @ '' | awk -F '' @ dquote @ '': '' @ dquote @ '' '' @ squote @ ''{print $2}'' @ squote)),
               all_commands := all_commands s @ [''file '' @ path @ '' | awk -F '' @ dquote @ '': '' @ dquote @ '' '' @ squote @ ''{print $2}'' @ squote]\<rparr>"
  using assms
  by (auto simp: is_text_file_def get_file_type_def bnd_def run_shell_command_def py_index_def
       ret_def raise_def Let_def split: prod.splits if_splits sum.splits)

lemma map_of_dict_replace:
  "map_of (map (\<lambda>(k', v'). if k' = k then (k', v) else (k', v')) d) k
     = (if k \<in> fst ` set d then Some v else None)"
  by (induction d) auto

lemma map_of_dict_set: "map_of (dict_set k v d) k = Some v"
proof (cases "k \<in> fst ` set d")
  case True
  then show ?thesis unfolding dict_set_def by (simp only: map_of_dict_replace if_True)
next
  case False
  then have "map_of d k = None" by (simp add: map_of_eq_None_iff)
  with False show ?thesis unfolding dict_set_def by (simp add: map_add_def)
qed

text \<open>
  C4: when the two extensions differ, the comparator writes the error message and exits
  with status 1; no command has run (no classification, no extraction) and nothing is
  entered in the dictionary of differences. The exit passes through \<open>compare_files\<close>
  and through the top-level loop, which compares no further pair.
\<close>

theorem mismatched_extensions_fail_fatally:
  assumes "extension file1 \<noteq> extension file2"
  shows "compare_files_recursive (Suc depth) E cfg file1 file2 parent_dir s =
           (Inl (SystemExit 1),
            s\<lparr>stderr := stderr s @ [get_filename (argv0 cfg) @ '': error: cannot compare '' @ squote
                 @ extension file1 @ squote @ '' and '' @ squote @ extension file2 @ squote
                 @ '' files. Not the same extension!'']\<rparr>)
         \<and> compare_files (Suc depth) E cfg file1 file2 parent_dir s =
           (Inl (SystemExit 1),
            s\<lparr>diffs_dict := [],
              stderr := stderr s @ [get_filename (argv0 cfg) @ '': error: cannot compare '' @ squote
                 @ extension file1 @ squote @ '' and '' @ squote @ extension file2 @ squote
                 @ '' files. Not the same extension!'']\<rparr>)
         \<and> (py_split file_pair CHR '' '' = file1 # file2 # others
              \<longrightarrow> compare_target_loop (Suc depth) E cfg (file_pair # rest) all_diffs s =
                   (Inl (SystemExit 1),
                    s\<lparr>diffs_dict := [],
                      stderr := stderr s @ [get_filename (argv0 cfg) @ '': error: cannot compare '' @ squote
                         @ extension file1 @ squote @ '' and '' @ squote @ extension file2 @ squote
                         @ '' files. Not the same extension!'']\<rparr>))"
proof -
  have rec: "compare_files_recursive (Suc depth) E cfg file1 file2 pd t =
           (Inl (SystemExit 1),
            t\<lparr>stderr := stderr t @ [get_filename (argv0 cfg) @ '': error: cannot compare '' @ squote
                 @ extension file1 @ squote @ '' and '' @ squote @ extension file2 @ squote
                 @ '' files. Not the same extension!'']\<rparr>)" for pd t
    using assms by (simp add: Let_def thn_def bnd_def print_error_def sys_exit_def raise_def)
  have cf: "compare_files (Suc depth) E cfg file1 file2 pd s =
           (Inl (SystemExit 1),
            s\<lparr>diffs_dict := [],
              stderr := stderr s @ [get_filename (argv0 cfg) @ '': error: cannot compare '' @ squote
                 @ extension file1 @ squote @ '' and '' @ squote @ extension file2 @ squote
                 @ '' files. Not the same extension!'']\<rparr>)" for pd
    unfolding compare_files_def rec by simp
  have loop: "compare_target_loop (Suc depth) E cfg (file_pair # rest) all_diffs s =
                   (Inl (SystemExit 1),
                    s\<lparr>diffs_dict := [],
                      stderr := stderr s @ [get_filename (argv0 cfg) @ '': error: cannot compare '' @ squote
                         @ extension file1 @ squote @ '' and '' @ squote @ extension file2 @ squote
                         @ '' files. Not the same extension!'']\<rparr>)"
    if "py_split file_pair CHR '' '' = file1 # file2 # others"
    unfolding compare_target_loop.simps that
    by (simp add: py_index_def bnd_def ret_def Let_def cf)
  from rec cf loop show ?thesis by blast
qed

theorem mismatched_extensions_fail_fatally_witness:
  "fst (compare_files_recursive (Suc 0) data_env cfg0 ''/tmp/target-files/a.zip/x.zip''
          ''/tmp/target-files/b.zip/x.apk'' ''x.zip'' (init_state ())) = Inl (SystemExit 1)
   \<and> all_commands (snd (compare_files_recursive (Suc 0) data_env cfg0 ''/tmp/target-files/a.zip/x.zip''
          ''/tmp/target-files/b.zip/x.apk'' ''x.zip'' (init_state ()))) = []
   \<and> fst (compare_target_loop (Suc 0) data_env cfg0
          [''/tmp/target-files/a.zip/x.zip /tmp/target-files/b.zip/x.apk'', ''y.bin y.bin'']
          [] (init_state ())) = Inl (SystemExit 1)"
proof -
  have h: "extension ''/tmp/target-files/a.zip/x.zip'' \<noteq> extension ''/tmp/target-files/b.zip/x.apk''"
    by code_simp
  have sp: "py_split ''/tmp/target-files/a.zip/x.zip /tmp/target-files/b.zip/x.apk'' CHR '' ''
            = [''/tmp/target-files/a.zip/x.zip'', ''/tmp/target-files/b.zip/x.apk'']"
    by code_simp
  from mismatched_extensions_fail_fatally
    [OF h, where depth = 0 and E = data_env and cfg = cfg0 and parent_dir = "''x.zip''"
       and s = "init_state ()"
       and file_pair = "''/tmp/target-files/a.zip/x.zip /tmp/target-files/b.zip/x.apk''"
       and others = "[]" and rest = "[''y.bin y.bin'']" and all_diffs = "[]"] sp
  show ?thesis by (simp add: init_state_def)
qed

text \<open>
  C5: when the shared extension has no strategy and \<open>is_text_file\<close> answers \<open>False\<close>
  for the first file, the comparator returns normally with the pair itself as the only
  difference, stored under the current parent path; the only command it has run is the
  \<open>file\<close> call of the classification.
\<close>

theorem unsupported_extension_is_leaf:
  assumes "extension file1 = extension file2"
    and "slice_from (extension file1) 1 \<notin>
           {''img'', ''apex'', ''capex'', ''apk'', ''zip'', ''gz'', ''lz4'', ''ext4''}"
    and "is_text_file E file1 s = (Inr False, s1)"
  shows "compare_files_recursive (Suc depth) E cfg file1 file2 parent_dir s =
           (Inr (Some parent_dir, [file1 @ '' '' @ file2]),
            s1\<lparr>diffs_dict := dict_set parent_dir [file1 @ '' '' @ file2] (diffs_dict s1)\<rparr>)
         \<and> map_of (dict_set parent_dir [file1 @ '' '' @ file2] (diffs_dict s1)) parent_dir
             = Some [file1 @ '' '' @ file2]
         \<and> all_commands s1 = all_commands s @
             [''file '' @ file1 @ '' | awk -F '' @ dquote @ '': '' @ dquote @ '' '' @ squote
                @ ''{print $2}'' @ squote]"
proof (intro conjI)
  from assms(2) have ne: "slice_from (extension file2) 1 \<noteq> ''img''"
    "slice_from (extension file2) 1 \<noteq> ''apex''" "slice_from (extension file2) 1 \<noteq> ''capex''"
    "slice_from (extension file2) 1 \<noteq> ''apk''" "slice_from (extension file2) 1 \<noteq> ''zip''"
    "slice_from (extension file2) 1 \<noteq> ''gz''" "slice_from (extension file2) 1 \<noteq> ''lz4''"
    "slice_from (extension file2) 1 \<noteq> ''ext4''"
    using assms(1) by simp_all
  have "compare_by_extension E cfg (slice_from (extension file2) 1) file1 file2 s = (Inr None, s1)"
    using ne assms(3) by (simp add: compare_by_extension_def bnd_def ret_def)
  then show "compare_files_recursive (Suc depth) E cfg file1 file2 parent_dir s =
           (Inr (Some parent_dir, [file1 @ '' '' @ file2]),
            s1\<lparr>diffs_dict := dict_set parent_dir [file1 @ '' '' @ file2] (diffs_dict s1)\<rparr>)"
    using assms(1) by (simp add: Let_def bnd_def thn_def set_diffs_def ret_def)
next
  show "map_of (dict_set parent_dir [file1 @ '' '' @ file2] (diffs_dict s1)) parent_dir
             = Some [file1 @ '' '' @ file2]"
    by (rule map_of_dict_set)
next
  from is_text_file_state [OF assms(3)]
  show "all_commands s1 = all_commands s @
             [''file '' @ file1 @ '' | awk -F '' @ dquote @ '': '' @ dquote @ '' '' @ squote
                @ ''{print $2}'' @ squote]"
    by simp
qed

theorem unsupported_extension_is_leaf_witness:
  "fst (compare_files_recursive (Suc 0) data_env cfg0 ''/tmp/target-files/a.zip/notes.bin''
          ''/tmp/target-files/b.zip/notes.bin'' ''notes.bin'' (init_state ()))
   = Inr (Some ''notes.bin'', [''/tmp/target-files/a.zip/notes.bin /tmp/target-files/b.zip/notes.bin''])"
proof -
  have h1: "extension ''/tmp/target-files/a.zip/notes.bin'' = extension ''/tmp/target-files/b.zip/notes.bin''"
    by code_simp
  have h2: "slice_from (extension ''/tmp/target-files/a.zip/notes.bin'') 1 \<notin>
           {''img'', ''apex'', ''capex'', ''apk'', ''zip'', ''gz'', ''lz4'', ''ext4''}"
    by code_simp
  have h3: "is_text_file data_env ''/tmp/target-files/a.zip/notes.bin'' (init_state ()) =
            (Inr False, snd (is_text_file data_env ''/tmp/target-files/a.zip/notes.bin'' (init_state ())))"
    by code_simp
  from unsupported_extension_is_leaf [OF h1 h2 h3, where depth = 0 and cfg = cfg0 and parent_dir = "''notes.bin''"]
  show ?thesis by simp
qed

text \<open>
  C6: for a pair of \<open>.img\<close> files whose first file is named \<open>userdata.img\<close>,
  \<open>compare_image_files\<close> returns the empty list and leaves the state as it was (no
  command runs), and the comparator returns no differences and records none.
\<close>

theorem userdata_image_is_skipped:
  assumes "get_filename img1 = ''userdata.img''"
    and "extension img1 = ''.img''" and "extension img2 = ''.img''"
  shows "compare_image_files E cfg img1 img2 s = (Inr [], s)
         \<and> compare_files_recursive (Suc depth) E cfg img1 img2 parent_dir s
             = (Inr (Some parent_dir, []), s)"
proof -
  have img: "compare_image_files E cfg img1 img2 s = (Inr [], s)"
    using assms(1) by (simp add: compare_image_files_def Let_def ret_def)
  have ext: "slice_from (extension img1) 1 = ''img''"
    using assms(2) by (simp add: slice_from_def)
  have "compare_by_extension E cfg ''img'' img1 img2 s = (Inr (Some []), s)"
    using img by (simp add: compare_by_extension_def bnd_def ret_def)
  then have "compare_files_recursive (Suc depth) E cfg img1 img2 parent_dir s
             = (Inr (Some parent_dir, []), s)"
    using assms(2,3) ext
    by (simp add: Let_def bnd_def thn_def ret_def can_extract_further_def)
  with img show ?thesis by simp
qed

theorem userdata_image_is_skipped_witness:
  "compare_files_recursive (Suc 0) data_env cfg0 ''/tmp/target-files/a.zip/IMAGES/userdata.img''
          ''/tmp/target-files/b.zip/IMAGES/userdata.img'' ''IMAGES/userdata.img'' (init_state ())
   = (Inr (Some ''IMAGES/userdata.img'', []), init_state ())"
proof -
  have h1: "get_filename ''/tmp/target-files/a.zip/IMAGES/userdata.img'' = ''userdata.img''"
    by code_simp
  have h2: "extension ''/tmp/target-files/a.zip/IMAGES/userdata.img'' = ''.img''"
    by code_simp
  have h3: "extension ''/tmp/target-files/b.zip/IMAGES/userdata.img'' = ''.img''"
    by code_simp
  from userdata_image_is_skipped [OF h1 h2 h3, where E = data_env and cfg = cfg0 and s = "init_state ()" and depth = 0
       and parent_dir = "''IMAGES/userdata.img''"]
  show ?thesis by simp
qed

section \<open>Map-file sorting: proofs\<close>

lemma sort_mset_eq: "mset xs = mset ys \<Longrightarrow> sort xs = sort (ys :: unicode list)"
  by (metis properties_for_sort mset_sort sorted_sort)

text \<open>
  Where the claim of C9 holds: when the lines that \<open>readlines\<close> returns for the two
  files, terminators included, are permutations of each other, a run of \<open>sort_files\<close>
  that returns leaves the same bytes in both files.
\<close>

lemma sort_files_same_lines:
  assumes "read_from_file enc fs file1 = Inr lines1"
    and "read_from_file enc fs file2 = Inr lines2"
    and "mset lines1 = mset lines2"
    and "sort_files enc fs file1 file2 = Inr fs'"
  shows "fs' file1 = fs' file2"
proof -
  have e: "sort lines1 = sort lines2" using assms(3) by (rule sort_mset_eq)
  from assms(4) obtain fs1 where
    w0: "write_to_file enc (concat (sort lines1)) file1 fs = Inr fs1" and
    w2: "write_to_file enc (concat (sort lines2)) file2 fs1 = Inr fs'"
    unfolding sort_files_def assms(1,2) by (auto split: sum.splits)
  from w0 have w1: "write_to_file enc (concat (sort lines2)) file1 fs = Inr fs1"
    by (simp only: e)
  from w1 obtain bytes where b: "encode enc (concat (sort lines2)) = Some bytes"
    and f1: "fs1 = fs(file1 \<mapsto> bytes)"
    by (auto simp: write_to_file_def split: option.splits)
  from w2 b f1 have "fs' = (fs(file1 \<mapsto> bytes))(file2 \<mapsto> bytes)"
    by (simp add: write_to_file_def)
  then show ?thesis by simp
qed

text \<open>
  C9 at a failing input: \<open>f\<close> holds the lines \<open>b\<close>, \<open>a\<close> and \<open>g\<close> holds the lines \<open>a\<close>,
  \<open>b\<close>, the last line of each without a terminator. \<open>sort_files\<close> sorts the lines with
  their terminators and joins them: \<open>f\<close> becomes the single line \<open>ab\<close>, \<open>g\<close> stays as it
  was, and the two files differ.
\<close>

theorem sort_files_unterminated_last_line:
  "map_sum id (\<lambda>fs'. (fs' ''f'', fs' ''g'')) (sort_files utf8 fs_map ''f'' ''g'')
     = Inr (Some (''ab'' @ newline), Some (''a'' @ newline @ ''b''))
   \<and> read_from_file utf8 fs_map ''f'' = Inr [[98, 10], [97]]
   \<and> read_from_file utf8 fs_map ''g'' = Inr [[97, 10], [98]]"
  by code_simp

section \<open>Text files with a container extension\<close>

lemma bnd_Inl: "fst (m s) = Inl e \<Longrightarrow> fst (bnd m f s) = Inl e"
  by (cases "m s") (auto simp: bnd_def)

lemma is_text_file_text_env:
  "is_text_file text_env path s =
     (Inr True,
      s\<lparr>world := (),
        all_commands := all_commands s @
          [''file '' @ path @ '' | awk -F '' @ dquote @ '': '' @ dquote @ '' '' @ squote
             @ ''{print $2}'' @ squote]\<rparr>)"
proof -
  have ok: "shell_successfull cmd None" for cmd
    by (simp add: shell_successfull_def)
  have is_txt: "py_in ''text'' (lower (''ASCII text'' @ newline))"
    by code_simp
  show ?thesis
    by (simp add: is_text_file_def get_file_type_def bnd_def run_shell_command_def text_env_def
          ok py_index_def ret_def is_txt [simplified] Let_def)
qed

lemma text_zip_recurses:
  assumes "uncomparable_files s = []"
  shows "fst (compare_files_recursive depth text_env cfg0 ''/tmp/target-files/a.zip/notes.zip''
               ''/tmp/target-files/b.zip/notes.zip'' parent_dir s) = Inl RecursionError"
  using assms
proof (induction depth arbitrary: parent_dir s)
  case 0
  show ?case by (simp add: raise_def)
next
  case (Suc depth)
  let ?f1 = "''/tmp/target-files/a.zip/notes.zip''"
  let ?f2 = "''/tmp/target-files/b.zip/notes.zip''"
  let ?pair = "''/tmp/target-files/a.zip/notes.zip /tmp/target-files/b.zip/notes.zip''"
  let ?s1 = "s\<lparr>world := (),
        all_commands := all_commands s @
          [''file '' @ ?f1 @ '' | awk -F '' @ dquote @ '': '' @ dquote @ '' '' @ squote
             @ ''{print $2}'' @ squote]\<rparr>"
  have e1: "extension ?f1 = ''.zip''" by code_simp
  have e2: "extension ?f2 = ''.zip''" by code_simp
  have sl: "slice_from ''.zip'' 1 = ''zip''" by code_simp
  have chosen: "compare_by_extension text_env cfg0 ''zip'' ?f1 ?f2 s = (Inr (Some [?pair]), ?s1)"
    by (simp add: compare_by_extension_def bnd_def is_text_file_text_env ret_def)
  have further: "can_extract_further [?pair] = [?pair]" by code_simp
  have sp: "py_split ?pair CHR '' '' = [?f1, ?f2]" by code_simp
  have unc: "uncomparable_files ?s1 = []" using Suc.prems by simp
  have rec: "fst (compare_files_recursive depth text_env cfg0 ?f1 ?f2
               (get_new_parent_dir cfg0 ?f1 parent_dir) ?s1) = Inl RecursionError"
    by (rule Suc.IH [OF unc])
  have loop: "fst (recurse_loop (compare_files_recursive depth text_env cfg0) cfg0 parent_dir
                [?pair] [] ?s1) = Inl RecursionError"
    unfolding recurse_loop.simps sp
    by (simp add: py_index_def bnd_def ret_def Let_def del: compare_files_recursive.simps)
       (use rec in \<open>auto split: prod.splits sum.splits\<close>)
  have body: "compare_files_recursive (Suc depth) text_env cfg0 ?f1 ?f2 parent_dir s =
        bnd (recurse_loop (compare_files_recursive depth text_env cfg0) cfg0 parent_dir [?pair] [])
            (\<lambda>new_diffs. ret (None, [] @ new_diffs)) ?s1"
    by (simp add: Let_def e1 e2 sl bnd_def chosen further Suc.prems thn_def ret_def
          del: recurse_loop.simps)
  show ?case unfolding body using loop by (rule bnd_Inl)
qed

text \<open>
  Where the claim of C2 holds: a text file whose name does not end in a container
  extension is a leaf of its own.
\<close>

lemma text_file_is_terminal:
  assumes "extension file1 = extension file2"
    and "slice_from (extension file1) 1 \<noteq> ''img''"
    and "is_text_file E file1 s = (Inr True, s1)"
    and "can_extract_further [file1 @ '' '' @ file2] = []"
  shows "compare_files_recursive (Suc depth) E cfg file1 file2 parent_dir s =
           (Inr (Some parent_dir, [file1 @ '' '' @ file2]),
            s1\<lparr>diffs_dict := dict_set parent_dir [file1 @ '' '' @ file2] (diffs_dict s1)\<rparr>)"
proof -
  have "compare_by_extension E cfg (slice_from (extension file2) 1) file1 file2 s
          = (Inr (Some [file1 @ '' '' @ file2]), s1)"
    using assms(1,2,3) by (simp add: compare_by_extension_def bnd_def ret_def)
  then show ?thesis
    using assms(1,4) by (simp add: Let_def bnd_def thn_def set_diffs_def ret_def)
qed

text \<open>
  C2 at a failing input: two files named \<open>notes.zip\<close> that \<open>file\<close> classifies as text.
  The text branch sets \<open>diffs\<close> to the pair itself, \<open>can_extract_further\<close> then selects
  that pair again because of its extension, and the comparator calls itself on the same
  two files: whatever the recursion limit, the run ends with \<open>RecursionError\<close> and the
  pair is never returned as a difference.
\<close>

theorem text_file_with_container_extension_recurses:
  "\<forall>depth. fst (compare_files_recursive depth text_env cfg0 ''/tmp/target-files/a.zip/notes.zip''
               ''/tmp/target-files/b.zip/notes.zip'' ''notes.zip'' (init_state ())) = Inl RecursionError"
  by (simp add: text_zip_recurses init_state_def)

section \<open>Logical paths: a parent with a slash\<close>

lemma startswith_iff: "startswith s p \<longleftrightarrow> (\<exists>post. s = p @ post)"
  by (induction s p rule: startswith.induct) auto

lemma find_from_found_iff:
  "find_from pat s i \<noteq> - 1 \<longleftrightarrow> (\<exists>pre post. s = pre @ pat @ post)"
proof (induction s arbitrary: i)
  case Nil
  show ?case by auto
next
  case (Cons c cs)
  show ?case
  proof (cases "startswith (c # cs) pat")
    case True
    then obtain post where "c # cs = pat @ post" by (auto simp: startswith_iff)
    then have "c # cs = [] @ pat @ post" by simp
    then have "\<exists>pre post. c # cs = pre @ pat @ post" by blast
    with True show ?thesis by simp
  next
    case False
    have "(\<exists>pre post. c # cs = pre @ pat @ post) \<longleftrightarrow> (\<exists>pre post. cs = pre @ pat @ post)"
    proof
      assume "\<exists>pre post. c # cs = pre @ pat @ post"
      then obtain pre post where e: "c # cs = pre @ pat @ post" by blast
      show "\<exists>pre post. cs = pre @ pat @ post"
      proof (cases pre)
        case Nil
        with e False show ?thesis by (auto simp: startswith_iff)
      next
        case (Cons a pre')
        with e have "cs = pre' @ pat @ post" by simp
        then show ?thesis by blast
      qed
    next
      assume "\<exists>pre post. cs = pre @ pat @ post"
      then obtain pre post where "cs = pre @ pat @ post" by blast
      then have "c # cs = (c # pre) @ pat @ post" by simp
      then show "\<exists>pre post. c # cs = pre @ pat @ post" by blast
    qed
    with False Cons.IH [of "Suc i"] show ?thesis by (simp del: startswith.simps)
  qed
qed

lemma py_in_substring: "py_in pat s \<longleftrightarrow> (\<exists>pre post. s = pre @ pat @ post)"
  by (simp add: py_in_def py_find_def find_from_found_iff)

lemma rfind_from_absent: "c \<notin> set s \<Longrightarrow> rfind_from [c] s i = - 1"
  by (induction s arbitrary: i) (auto simp: Let_def)

lemma rfind_from_last:
  "c \<notin> set seg \<Longrightarrow> rfind_from [c] (d @ c # seg) i = int (i + length d)"
proof (induction d arbitrary: i)
  case Nil
  then show ?case by (simp add: Let_def rfind_from_absent)
next
  case (Cons a d)
  from Cons.IH [OF Cons.prems, of "Suc i"] show ?case by (simp add: Let_def)
qed

text \<open>
  Where the claim of C7 holds: when the current parent is \<open>d/seg\<close> with no slash in
  \<open>seg\<close>, the new parent is \<open>d/r\<close> if \<open>seg\<close> occurs in the relative name \<open>r\<close>, and the
  current parent followed by the bare file name otherwise.
\<close>

lemma get_new_parent_dir_with_slash:
  assumes "current_parent = d @ ''/'' @ seg" and "CHR ''/'' \<notin> set seg"
  shows "get_new_parent_dir cfg path current_parent =
           (if \<exists>pre post. get_relative_path cfg path = pre @ seg @ post
            then d @ ''/'' @ get_relative_path cfg path
            else current_parent @ ''/'' @ get_filename path)"
proof -
  have r: "py_rfind current_parent ''/'' = int (length d)"
    using rfind_from_last [OF assms(2), of d 0] assms(1) by (simp add: py_rfind_def)
  have pf: "slice_from current_parent (int (length d) + 1) = seg"
    using assms(1) by (simp add: slice_from_def nat_add_distrib)
  have pd: "slice_to current_parent (int (length d)) = d"
    using assms(1) by (simp add: slice_to_def)
  show ?thesis
    unfolding get_new_parent_dir_def Let_def r pf pd py_in_substring by simp
qed

section \<open>Logical paths: a parent without a slash\<close>

text \<open>
  C7 at a failing input: the current parent \<open>foo.zip\<close> has no slash, so \<open>rfind\<close>
  returns \<open>-1\<close>, \<open>parent_file\<close> is the whole parent and \<open>parent_dir\<close> is the parent
  without its last character: the new parent is \<open>foo.zi/foo.zip/bar.zip\<close>.
\<close>

theorem get_new_parent_dir_without_slash:
  "get_relative_path cfg0 ''/tmp/comparison/zip/foo.zip/a.zip/bar.zip'' = ''foo.zip/bar.zip''
   \<and> get_new_parent_dir cfg0 ''/tmp/comparison/zip/foo.zip/a.zip/bar.zip'' ''foo.zip''
       = ''foo.zi/foo.zip/bar.zip''"
  by code_simp

section \<open>The uncomparable list: proofs\<close>

lemma keeps_ret [keeps]: "keeps_uncomparable (ret x)"
  by (simp add: keeps_uncomparable_def ret_def)

lemma keeps_raise [keeps]: "keeps_uncomparable (raise e)"
  by (simp add: keeps_uncomparable_def raise_def)

lemma keeps_bnd [keeps]:
  assumes "keeps_uncomparable m" and "\<And>x. keeps_uncomparable (f x)"
  shows "keeps_uncomparable (bnd m f)"
  unfolding keeps_uncomparable_def
proof
  fix s
  show "uncomparable_files (snd (bnd m f s)) = uncomparable_files s"
  proof (cases "m s")
    case (Pair r s')
    with assms(1) have k: "uncomparable_files s' = uncomparable_files s"
      by (metis keeps_uncomparable_def snd_conv)
    show ?thesis
    proof (cases r)
      case (Inl e)
      with Pair k show ?thesis by (simp add: bnd_def)
    next
      case (Inr x)
      from assms(2) [of x] have "uncomparable_files (snd (f x s')) = uncomparable_files s'"
        by (simp add: keeps_uncomparable_def)
      with Pair Inr k show ?thesis by (simp add: bnd_def)
    qed
  qed
qed

lemma keeps_thn [keeps]:
  "keeps_uncomparable m \<Longrightarrow> keeps_uncomparable k \<Longrightarrow> keeps_uncomparable (thn m k)"
  unfolding thn_def by (rule keeps_bnd)

lemma keeps_if [keeps]:
  "keeps_uncomparable a \<Longrightarrow> keeps_uncomparable b \<Longrightarrow> keeps_uncomparable (if c then a else b)"
  by simp

lemma keeps_case_prod [keeps]:
  "(\<And>a b. keeps_uncomparable (f a b)) \<Longrightarrow> keeps_uncomparable (case_prod f p)"
  by (cases p) simp

lemma keeps_run_shell_command [keeps]: "keeps_uncomparable (run_shell_command E cmd)"
  by (simp add: keeps_uncomparable_def run_shell_command_def Let_def split: prod.splits)

lemma keeps_print_error [keeps]: "keeps_uncomparable (print_error cfg cause)"
  by (simp add: keeps_uncomparable_def print_error_def)

lemma keeps_sys_exit [keeps]: "keeps_uncomparable (sys_exit code)"
  by (simp add: sys_exit_def keeps_raise)

lemma keeps_dir_exists [keeps]: "keeps_uncomparable (dir_exists E path)"
  by (simp add: keeps_uncomparable_def dir_exists_def)

lemma keeps_file_exists [keeps]: "keeps_uncomparable (file_exists E path)"
  by (simp add: keeps_uncomparable_def file_exists_def)

lemma keeps_py_index [keeps]: "keeps_uncomparable (py_index xs i)"
  by (simp add: py_index_def keeps_ret keeps_raise)

lemma keeps_set_diffs [keeps]: "keeps_uncomparable (set_diffs parent_dir files)"
  by (simp add: keeps_uncomparable_def set_diffs_def)

lemma keeps_append_apk_files [keeps]: "keeps_uncomparable (append_apk_files file_pair)"
  by (simp add: keeps_uncomparable_def append_apk_files_def)

lemma keeps_diff [keeps]: "keeps_uncomparable (diff E path1 path2)"
  unfolding diff_def Let_def by (intro keeps)

lemma keeps_unzip [keeps]: "keeps_uncomparable (unzip E cfg src dst)"
  unfolding unzip_def Let_def by (intro keeps)

lemma keeps_is_text_file [keeps]: "keeps_uncomparable (is_text_file E path)"
  unfolding is_text_file_def get_file_type_def Let_def by (intro keeps)

lemma keeps_extract_7z_files [keeps]:
  "keeps_uncomparable (extract_7z_files E file1 file2 target1 target2 use_sim2img)"
  unfolding extract_7z_files_def Let_def by (intro keeps)

lemma keeps_compare_image_files [keeps]: "keeps_uncomparable (compare_image_files E cfg img1 img2)"
  unfolding compare_image_files_def Let_def by (intro keeps)

lemma keeps_compare_apex_files [keeps]: "keeps_uncomparable (compare_apex_files E cfg apex1 apex2)"
  unfolding compare_apex_files_def Let_def by (intro keeps)

lemma keeps_compare_capex_files [keeps]: "keeps_uncomparable (compare_capex_files E cfg capex1 capex2)"
  unfolding compare_capex_files_def Let_def by (intro keeps)

lemma keeps_compare_apk_files [keeps]: "keeps_uncomparable (compare_apk_files E cfg apk1 apk2)"
  unfolding compare_apk_files_def Let_def by (intro keeps)

lemma keeps_compare_zip_files [keeps]: "keeps_uncomparable (compare_zip_files E cfg zip1 zip2)"
  unfolding compare_zip_files_def Let_def by (intro keeps)

lemma keeps_compare_gz_files [keeps]: "keeps_uncomparable (compare_gz_files E cfg gz1 gz2)"
  unfolding compare_gz_files_def Let_def by (intro keeps)

lemma keeps_compare_lz4_files [keeps]: "keeps_uncomparable (compare_lz4_files E cfg lz41 lz42)"
  unfolding compare_lz4_files_def Let_def by (intro keeps)

lemma keeps_compare_ext4_files [keeps]: "keeps_uncomparable (compare_ext4_files E cfg ext41 ext42)"
  unfolding compare_ext4_files_def Let_def by (intro keeps)



lemma keeps_case_option [keeps]:
  "keeps_uncomparable a \<Longrightarrow> (\<And>x. keeps_uncomparable (f x)) \<Longrightarrow> keeps_uncomparable (case_option a f v)"
  by (cases v) simp_all











end
